theory Spec2Isabelle
  imports Main
begin

section \<open>Strings and the Go library functions the code calls\<close>

text \<open>
  A Go string is a sequence of bytes; it is modelled as \<^typ>\<open>string\<close>, a list of 8-bit
  characters. Bytes outside ASCII are written by their value, so the check mark U+2705
  of the source is the three bytes \<open>E2 9C 85\<close> of its UTF-8 encoding.
\<close>

definition LF :: char where "LF = CHR 0x0A"
definition CR :: char where "CR = CHR 0x0D"
definition TAB :: char where "TAB = CHR 0x09"
definition QUO :: char where "QUO = CHR 0x22"
definition BSL :: char where "BSL = CHR 0x5C"

text \<open>\<open>strings.Join(elems, sep)\<close>.\<close>

fun Join :: "string list \<Rightarrow> string \<Rightarrow> string" where
  "Join [] sep = []"
| "Join [x] sep = x"
| "Join (x # y # ys) sep = x @ sep @ Join (y # ys) sep"

subsection \<open>Package fmt\<close>

text \<open>
  \<open>fmt.Sprintf\<close> on string operands, for the directives \<open>%s\<close>, \<open>%v\<close> and \<open>%%\<close>
  and the diagnostics the package documents: \<open>%!(NOVERB)\<close> for a format that ends in a
  percent sign, \<open>%!x(MISSING)\<close> for a directive with no operand left, \<open>%!x(string=...)\<close>
  for a verb that does not apply to a string, and \<open>%!(EXTRA string=...)\<close> for operands
  left over. Flags, widths, precisions, argument indexes and the other verbs that accept
  a string (\<open>q\<close>, \<open>x\<close>, \<open>X\<close>, \<open>T\<close>, \<open>p\<close>) are not covered; the format strings that the
  package itself contains, and the ones evaluated below, use none of them.

  Wherever the source formats the caller's own format string and operands, the
  operations below take the formatter as a parameter \<open>S\<close>, so that what is proved holds
  whatever \<open>fmt.Sprintf\<close> makes of a format; \<open>Sprintf\<close> is used for the package's own
  constant formats and as the \<open>S\<close> of the worked examples.
\<close>

fun Sprintf :: "string \<Rightarrow> string list \<Rightarrow> string" where
  "Sprintf [] ops =
     (if ops = [] then []
      else ''%!(EXTRA '' @ Join (map (\<lambda>x. ''string='' @ x) ops) '', '' @ '')'')"
| "Sprintf (c # cs) ops =
     (if c \<noteq> CHR ''%'' then c # Sprintf cs ops
      else (case cs of
              [] \<Rightarrow> ''%!(NOVERB)'' @ Sprintf [] ops
            | v # rest \<Rightarrow>
                if v = CHR ''%'' then CHR ''%'' # Sprintf rest ops
                else (case ops of
                        [] \<Rightarrow> ''%!'' @ [v] @ ''(MISSING)'' @ Sprintf rest []
                      | x # xs \<Rightarrow>
                          if v = CHR ''s'' \<or> v = CHR ''v'' then x @ Sprintf rest xs
                          else ''%!'' @ [v] @ ''(string='' @ x @ '')'' @ Sprintf rest xs)))"

text \<open>\<open>fmt.Sprintln\<close>: the operands separated by spaces, then a newline.\<close>

definition Sprintln :: "string list \<Rightarrow> string" where
  "Sprintln ops = Join ops '' '' @ [LF]"

subsection \<open>Package time\<close>

text \<open>
  A clock reading, as the civil date and time in UTC that \<open>time.Now().UTC()\<close> denotes.
  \<open>Time.MarshalJSON\<close> renders it as a quoted RFC 3339 string with the fraction of a second
  cut after its last non-zero digit, and fails when the year does not have four digits.
\<close>

record Time =
  year :: int
  month :: nat
  day :: nat
  hour :: nat
  minute :: nat
  second :: nat
  nanosecond :: nat

fun digits :: "nat \<Rightarrow> nat \<Rightarrow> string" where
  "digits 0 n = []"
| "digits (Suc w) n = digits w (n div 10) @ [''0123456789'' ! (n mod 10)]"

definition fraction :: "nat \<Rightarrow> string" where
  "fraction ns =
     (if ns = 0 then []
      else CHR ''.'' # rev (dropWhile (\<lambda>c. c = CHR ''0'') (rev (digits 9 ns))))"

definition RFC3339Nano :: "Time \<Rightarrow> string" where
  "RFC3339Nano t =
     digits 4 (nat (year t)) @ ''-'' @ digits 2 (month t) @ ''-'' @ digits 2 (day t) @ ''T'' @
     digits 2 (hour t) @ '':'' @ digits 2 (minute t) @ '':'' @ digits 2 (second t) @
     fraction (nanosecond t) @ ''Z''"

definition Time_MarshalJSON :: "Time \<Rightarrow> string option" where
  "Time_MarshalJSON t =
     (if year t < 0 \<or> 10000 \<le> year t then None
      else Some (QUO # RFC3339Nano t @ [QUO]))"

subsection \<open>Packages unicode/utf8 and encoding/json\<close>

text \<open>
  \<open>runeLen\<close> is the size that \<open>utf8.DecodeRuneInString\<close> reports for the sequence at the
  head of a string, with 0 standing for the result \<open>(RuneError, 1)\<close>: the head byte does
  not start a well-formed UTF-8 sequence.
\<close>

definition between :: "nat \<Rightarrow> nat \<Rightarrow> char \<Rightarrow> bool" where
  "between lo hi c = (lo \<le> of_char c \<and> of_char c \<le> hi)"

fun runeLen :: "string \<Rightarrow> nat" where
  "runeLen [] = 0"
| "runeLen (b0 # bs) =
     (let x = (of_char b0 :: nat)
      in if x < 0x80 then 1
         else if x < 0xC2 then 0
         else if x < 0xE0 then
           (case bs of
              b1 # _ \<Rightarrow> if between 0x80 0xBF b1 then 2 else 0
            | _ \<Rightarrow> 0)
         else if x < 0xF0 then
           (case bs of
              b1 # b2 # _ \<Rightarrow>
                if between (if x = 0xE0 then 0xA0 else 0x80) (if x = 0xED then 0x9F else 0xBF) b1
                   \<and> between 0x80 0xBF b2
                then 3 else 0
            | _ \<Rightarrow> 0)
         else if x < 0xF5 then
           (case bs of
              b1 # b2 # b3 # _ \<Rightarrow>
                if between (if x = 0xF0 then 0x90 else 0x80) (if x = 0xF4 then 0x8F else 0xBF) b1
                   \<and> between 0x80 0xBF b2 \<and> between 0x80 0xBF b3
                then 4 else 0
            | _ \<Rightarrow> 0)
         else 0)"

text \<open>
  The string encoder of \<open>json.Marshal\<close>, with HTML escaping on as it is by default.
  Printable ASCII is copied, except the quote, the backslash and \<open><\<close>, \<open>>\<close>, \<open>&\<close>;
  the other ASCII bytes are escaped; a byte that starts no well-formed UTF-8 sequence
  becomes the escape of the replacement character U+FFFD; the separators U+2028 and
  U+2029 are escaped; every other sequence is copied.
\<close>

definition hex :: string where
  "hex = ''0123456789abcdef''"

definition htmlSafe :: "char \<Rightarrow> bool" where
  "htmlSafe b = (0x20 \<le> (of_char b :: nat) \<and> (of_char b :: nat) < 0x80 \<and>
                 b \<notin> {QUO, BSL, CHR ''<'', CHR ''>'', CHR ''&''})"

definition escape :: "char \<Rightarrow> string" where
  "escape b =
     (if htmlSafe b then [b]
      else if b = BSL \<or> b = QUO then [BSL, b]
      else if b = CHR 0x08 then [BSL, CHR ''b'']
      else if b = CHR 0x0C then [BSL, CHR ''f'']
      else if b = CHR 0x0A then [BSL, CHR ''n'']
      else if b = CHR 0x0D then [BSL, CHR ''r'']
      else if b = CHR 0x09 then [BSL, CHR ''t'']
      else [BSL, CHR ''u'', CHR ''0'', CHR ''0'', hex ! (of_char b div 16), hex ! (of_char b mod 16)])"

definition LineSep :: string where "LineSep = [CHR 0xE2, CHR 0x80, CHR 0xA8]"
definition ParaSep :: string where "ParaSep = [CHR 0xE2, CHR 0x80, CHR 0xA9]"
definition Replacement :: string where "Replacement = [CHR 0xEF, CHR 0xBF, CHR 0xBD]"

function appendBody :: "string \<Rightarrow> string" where
  "appendBody [] = []"
| "appendBody (b # bs) =
     (if (of_char b :: nat) < 0x80 then escape b @ appendBody bs
      else let n = runeLen (b # bs)
           in if n = 0 then BSL # ''ufffd'' @ appendBody bs
              else if take 3 (b # bs) = LineSep then BSL # ''u2028'' @ appendBody (drop 2 bs)
              else if take 3 (b # bs) = ParaSep then BSL # ''u2029'' @ appendBody (drop 2 bs)
              else take n (b # bs) @ appendBody (drop (n - 1) bs))"
  by pat_completeness auto
termination
  by (relation "measure length") auto

definition appendString :: "string \<Rightarrow> string" where
  "appendString src = QUO # appendBody src @ [QUO]"

text \<open>The struct \<open>jsonLog\<close> of \<open>logJSON\<close> and \<open>json.Marshal\<close> applied to it.\<close>

record jsonLog =
  Time :: Time
  Status :: string
  Message :: string

definition Marshal :: "jsonLog \<Rightarrow> string option" where
  "Marshal l =
     (case Time_MarshalJSON (Time l) of
        None \<Rightarrow> None
      | Some t \<Rightarrow>
          Some (''{'' @ appendString ''time'' @ '':'' @ t @ '','' @
                appendString ''status'' @ '':'' @ appendString (Status l) @ '','' @
                appendString ''msg'' @ '':'' @ appendString (Message l) @ ''}''))"

section \<open>Package print (print.go)\<close>

text \<open>
  The state the package works on. \<open>logAsJSON\<close> is the package variable of that name;
  \<open>now\<close> is what the clock reads; \<open>written\<close> records, in order, every \<open>Write\<close> call
  made on an \<open>io.Writer\<close>, as the writer and the bytes handed to it. A writer is known
  by its identity only, so the record holds for every sink, whatever it does with the
  bytes and whether or not it reports an error: the package never looks at the result
  of a write.
\<close>

record 'w world =
  logAsJSON :: bool
  now :: Time
  written :: "('w \<times> string) list"

definition Write :: "'w \<Rightarrow> string \<Rightarrow> 'w world \<Rightarrow> 'w world" where
  "Write w p st = st\<lparr>written := written st @ [(w, p)]\<rparr>"

text \<open>\<open>fmt.Fprintf\<close> and \<open>fmt.Fprintln\<close> format and make one \<open>Write\<close> call.\<close>

definition Fprintf :: "'w \<Rightarrow> string \<Rightarrow> string list \<Rightarrow> 'w world \<Rightarrow> 'w world" where
  "Fprintf w format ops st = Write w (Sprintf format ops) st"

definition Fprintln :: "'w \<Rightarrow> string list \<Rightarrow> 'w world \<Rightarrow> 'w world" where
  "Fprintln w ops st = Write w (Sprintln ops) st"

definition windowsOS :: string where
  "windowsOS = ''windows''"

type_synonym Result = bool

definition Success :: Result where "Success = True"
definition Failure :: Result where "Failure = False"

definition EnableJSONFormat :: "'w world \<Rightarrow> 'w world" where
  "EnableJSONFormat st = st\<lparr>logAsJSON := True\<rparr>"

definition IsJSONLogEnabled :: "'w world \<Rightarrow> bool" where
  "IsJSONLogEnabled st = logAsJSON st"

definition logJSON :: "'w \<Rightarrow> string \<Rightarrow> string \<Rightarrow> 'w world \<Rightarrow> 'w world" where
  "logJSON w status message st =
     (let l = \<lparr>Time = now st, Status = status, Message = message\<rparr>
      in case Marshal l of
           None \<Rightarrow> Fprintln w [message] st
         | Some jsonBytes \<Rightarrow> Fprintf w (''%s'' @ [LF]) [jsonBytes] st)"

text \<open>
  The five status events. \<open>goos\<close> is \<open>runtime.GOOS\<close>. The icons are the bytes of the
  source's string literals: U+2705, U+274C, U+26A0, U+231B, and U+2139 followed by
  U+FE0F.
\<close>

definition SuccessStatusEvent ::
  "(string \<Rightarrow> 'a list \<Rightarrow> string) \<Rightarrow> string \<Rightarrow> 'w \<Rightarrow> string \<Rightarrow> 'a list \<Rightarrow> 'w world \<Rightarrow> 'w world" where
  "SuccessStatusEvent S goos w fmtstr a st =
     (if logAsJSON st then logJSON w ''success'' (S fmtstr a) st
      else if goos = windowsOS then Fprintf w (''%s'' @ [LF]) [S fmtstr a] st
      else Fprintf w ([CHR 0xE2, CHR 0x9C, CHR 0x85] @ ''  %s'' @ [LF]) [S fmtstr a] st)"

definition FailureStatusEvent ::
  "(string \<Rightarrow> 'a list \<Rightarrow> string) \<Rightarrow> string \<Rightarrow> 'w \<Rightarrow> string \<Rightarrow> 'a list \<Rightarrow> 'w world \<Rightarrow> 'w world" where
  "FailureStatusEvent S goos w fmtstr a st =
     (if logAsJSON st then logJSON w ''failure'' (S fmtstr a) st
      else if goos = windowsOS then Fprintf w (''%s'' @ [LF]) [S fmtstr a] st
      else Fprintf w ([CHR 0xE2, CHR 0x9D, CHR 0x8C] @ ''  %s'' @ [LF]) [S fmtstr a] st)"

definition WarningStatusEvent ::
  "(string \<Rightarrow> 'a list \<Rightarrow> string) \<Rightarrow> string \<Rightarrow> 'w \<Rightarrow> string \<Rightarrow> 'a list \<Rightarrow> 'w world \<Rightarrow> 'w world" where
  "WarningStatusEvent S goos w fmtstr a st =
     (if logAsJSON st then logJSON w ''warning'' (S fmtstr a) st
      else if goos = windowsOS then Fprintf w (''%s'' @ [LF]) [S fmtstr a] st
      else Fprintf w ([CHR 0xE2, CHR 0x9A, CHR 0xA0] @ ''  %s'' @ [LF]) [S fmtstr a] st)"

definition PendingStatusEvent ::
  "(string \<Rightarrow> 'a list \<Rightarrow> string) \<Rightarrow> string \<Rightarrow> 'w \<Rightarrow> string \<Rightarrow> 'a list \<Rightarrow> 'w world \<Rightarrow> 'w world" where
  "PendingStatusEvent S goos w fmtstr a st =
     (if logAsJSON st then logJSON w ''pending'' (S fmtstr a) st
      else if goos = windowsOS then Fprintf w (''%s'' @ [LF]) [S fmtstr a] st
      else Fprintf w ([CHR 0xE2, CHR 0x8C, CHR 0x9B] @ ''  %s'' @ [LF]) [S fmtstr a] st)"

definition InfoStatusEvent ::
  "(string \<Rightarrow> 'a list \<Rightarrow> string) \<Rightarrow> string \<Rightarrow> 'w \<Rightarrow> string \<Rightarrow> 'a list \<Rightarrow> 'w world \<Rightarrow> 'w world" where
  "InfoStatusEvent S goos w fmtstr a st =
     (if logAsJSON st then logJSON w ''info'' (S fmtstr a) st
      else if goos = windowsOS then Fprintf w (''%s'' @ [LF]) [S fmtstr a] st
      else Fprintf w ([CHR 0xE2, CHR 0x84, CHR 0xB9, CHR 0xEF, CHR 0xB8, CHR 0x8F] @ ''  %s'' @ [LF])
             [S fmtstr a] st)"

text \<open>
  The spinner of the library \<open>briandowns/spinner\<close>, as far as the package sets and reads
  it: \<open>New\<close> with a character set and a delay in milliseconds, the fields \<open>Writer\<close> and
  \<open>Suffix\<close>, \<open>Color\<close>, \<open>Start\<close> and \<open>Stop\<close>. The frames the running spinner draws on
  its writer, and the control sequence with which \<open>Stop\<close> wipes them, belong to the
  library and to real time; they are not status lines and are left out of \<open>written\<close>.
\<close>

record 'w spinner =
  CharSet :: nat
  Delay :: nat
  Writer :: "'w option"
  color :: string
  Suffix :: string
  active :: bool

definition New :: "nat \<Rightarrow> nat \<Rightarrow> 'w spinner" where
  "New cs d = \<lparr>CharSet = cs, Delay = d, Writer = None, color = ''white'', Suffix = [],
               active = False\<rparr>"

definition Color :: "string \<Rightarrow> 'w spinner \<Rightarrow> 'w spinner" where
  "Color c s = s\<lparr>color := c\<rparr>"

definition Start :: "'w spinner \<Rightarrow> 'w spinner" where
  "Start s = s\<lparr>active := True\<rparr>"

definition Stop :: "'w spinner \<Rightarrow> 'w spinner" where
  "Stop s = s\<lparr>active := False\<rparr>"

text \<open>
  The function value that \<open>Spinner\<close> returns: the dummy of the Windows branch, or the
  closure over the writer, the message, the \<open>sync.Once\<close> and the spinner pointer
  (\<open>None\<close> is \<open>nil\<close>). \<open>complete\<close> calls it. \<open>sync.Once\<close> lets exactly one caller run
  the guarded body and makes every other caller wait for it, so calls made from several
  goroutines take effect in some order, one after the other; a list of results stands
  for that order.
\<close>

record 'w closure =
  cl_w :: 'w
  cl_msg :: string
  cl_once :: bool
  cl_s :: "'w spinner option"

datatype 'w completion = Dummy | Guarded "'w closure"

definition Spinner ::
  "(string \<Rightarrow> 'a list \<Rightarrow> string) \<Rightarrow> string \<Rightarrow> 'w \<Rightarrow> string \<Rightarrow> 'a list \<Rightarrow> 'w world
     \<Rightarrow> 'w completion \<times> 'w world" where
  "Spinner S goos w fmtstr a st =
     (let msg = S fmtstr a
      in if logAsJSON st
         then (Guarded \<lparr>cl_w = w, cl_msg = msg, cl_once = False, cl_s = None\<rparr>,
               logJSON w ''pending'' msg st)
         else if goos = windowsOS
         then (Dummy, Fprintf w (''%s'' @ [LF]) [msg] st)
         else (Guarded \<lparr>cl_w = w, cl_msg = msg, cl_once = False,
                 cl_s = Some (Start ((Color ''cyan'' ((New 0 100)\<lparr>Writer := Some w\<rparr>))
                                     \<lparr>Suffix := Sprintf ''  %s'' [msg]\<rparr>))\<rparr>,
               st))"

fun complete ::
  "(string \<Rightarrow> 'a list \<Rightarrow> string) \<Rightarrow> string \<Rightarrow> 'w completion \<Rightarrow> Result \<Rightarrow> 'w world
     \<Rightarrow> 'w completion \<times> 'w world" where
  "complete S goos Dummy result st = (Dummy, st)"
| "complete S goos (Guarded c) result st =
     (if cl_once c then (Guarded c, st)
      else (Guarded (c\<lparr>cl_once := True, cl_s := map_option Stop (cl_s c)\<rparr>),
            if result then SuccessStatusEvent S goos (cl_w c) (cl_msg c) [] st
            else FailureStatusEvent S goos (cl_w c) (cl_msg c) [] st))"

section \<open>Package standalone: the version prober (version.go)\<close>

text \<open>
  \<open>exec.Command(name, arg...).Output()\<close> runs a companion binary and returns its captured
  standard output together with an error value (\<open>nil\<close> is \<open>None\<close>). The three reasons the
  specification names are the constructors of \<open>exec_error\<close>.
\<close>

datatype exec_error = NotFound | ExitError nat | IOError

text \<open>
  What the package reads from outside this file: the two path helpers
  \<open>defaultDaprBinPath\<close> and \<open>binaryFilePath\<close> (defined elsewhere in the package and taken
  here as given), the two identifiers injected by the build, and the operating system's
  answer to running a command.
\<close>

record host =
  defaultDaprBinPath :: string
  binaryFilePath :: "string \<Rightarrow> string \<Rightarrow> string"
  gitcommit :: string
  gitversion :: string
  Output :: "string \<Rightarrow> string list \<Rightarrow> string \<times> exec_error option"

definition GetRuntimeVersion :: "host \<Rightarrow> string" where
  "GetRuntimeVersion h =
     (let daprBinDir = defaultDaprBinPath h;
          daprCMD = binaryFilePath h daprBinDir ''daprd'';
          (out, err) = Output h daprCMD [''--version'']
      in if err \<noteq> None then ''n/a'' @ [LF] else out)"

definition GetDashboardVersion :: "host \<Rightarrow> string" where
  "GetDashboardVersion h =
     (let daprBinDir = defaultDaprBinPath h;
          dashboardCMD = binaryFilePath h daprBinDir ''dashboard'';
          (out, err) = Output h dashboardCMD [''--version'']
      in if err \<noteq> None then ''n/a'' @ [LF] else out)"

subsection \<open>\<open>bufio.Scanner\<close> with the default line splitter\<close>

text \<open>
  A scanner over a string reader. \<open>Scan\<close> advances to the next line and reports whether
  there is one; \<open>Text\<close> is the line found, without its end-of-line marker (a newline,
  with one carriage return before it dropped). The last line needs no newline. The
  scanner reads into a buffer that grows to \<open>MaxScanTokenSize\<close> bytes at most and must
  hold a line together with its newline, or with room to see the end of the input; a
  line of \<open>MaxScanTokenSize\<close> bytes or more stops the scan for good: \<open>Scan\<close> returns
  false and records the error \<open>ErrTooLong\<close>, which the caller may read with \<open>Err\<close>.
\<close>

definition MaxScanTokenSize :: nat where
  "MaxScanTokenSize = 64 * 1024"

record Scanner =
  unread :: string
  token :: string
  tooLong :: bool

definition NewScanner :: "string \<Rightarrow> Scanner" where
  "NewScanner r = \<lparr>unread = r, token = [], tooLong = False\<rparr>"

definition dropCR :: "string \<Rightarrow> string" where
  "dropCR data = (if data \<noteq> [] \<and> last data = CR then butlast data else data)"

definition Scan :: "Scanner \<Rightarrow> bool \<times> Scanner" where
  "Scan s =
     (if tooLong s \<or> unread s = [] then (False, s\<lparr>token := []\<rparr>)
      else let line = takeWhile (\<lambda>c. c \<noteq> LF) (unread s)
           in if MaxScanTokenSize \<le> length line
              then (False, s\<lparr>token := [], tooLong := True\<rparr>)
              else (True, s\<lparr>unread := drop (Suc (length line)) (unread s),
                             token := dropCR line\<rparr>))"

definition Text :: "Scanner \<Rightarrow> string" where
  "Text s = token s"

text \<open>
  The loop over \<open>scanner.Scan()\<close> that appends a tab and \<open>scanner.Text()\<close> to \<open>strs\<close>.
\<close>

function scan_loop :: "string list \<Rightarrow> Scanner \<Rightarrow> string list" where
  "scan_loop strs s =
     (let (more, s') = Scan s
      in if more then scan_loop (strs @ [TAB # Text s']) s' else strs)"
  by pat_completeness auto
termination
  by (relation "measure (\<lambda>(strs, s). length (unread s))") (auto simp: Scan_def Let_def split: if_splits)

declare scan_loop.simps [simp del]

definition GetBuildInfo :: "host \<Rightarrow> string \<Rightarrow> string" where
  "GetBuildInfo h version =
     (let daprBinDir = defaultDaprBinPath h;
          daprCMD = binaryFilePath h daprBinDir ''daprd'';
          strs = [''CLI:'',
                  TAB # ''Version: '' @ version,
                  TAB # ''Git Commit: '' @ gitcommit h,
                  TAB # ''Git Version: '' @ gitversion h,
                  ''Runtime:''];
          (out, err) = Output h daprCMD [''--build-info''];
          (out, err) = (if err \<noteq> None then Output h daprCMD [''--version''] else (out, err));
          strs = (if err \<noteq> None then strs @ [TAB # ''N/A'']
                  else scan_loop strs (NewScanner out))
      in Join strs [LF])"

section \<open>The notions the properties are stated in\<close>

subsection \<open>Severities and sequences of calls\<close>

text \<open>
  The five severities with their tags and icons, \<open>StatusEvent\<close> to speak of the five
  status-event functions at once, and \<open>emit\<close>: what a status event of a severity with an
  already formatted message does to the world.
\<close>

datatype severity = success | failure | warning | pending | info

fun tag :: "severity \<Rightarrow> string" where
  "tag success = ''success''"
| "tag failure = ''failure''"
| "tag warning = ''warning''"
| "tag pending = ''pending''"
| "tag info = ''info''"

fun icon :: "severity \<Rightarrow> string" where
  "icon success = [CHR 0xE2, CHR 0x9C, CHR 0x85]"
| "icon failure = [CHR 0xE2, CHR 0x9D, CHR 0x8C]"
| "icon warning = [CHR 0xE2, CHR 0x9A, CHR 0xA0]"
| "icon pending = [CHR 0xE2, CHR 0x8C, CHR 0x9B]"
| "icon info = [CHR 0xE2, CHR 0x84, CHR 0xB9, CHR 0xEF, CHR 0xB8, CHR 0x8F]"

fun StatusEvent ::
  "severity \<Rightarrow> (string \<Rightarrow> 'a list \<Rightarrow> string) \<Rightarrow> string \<Rightarrow> 'w \<Rightarrow> string \<Rightarrow> 'a list \<Rightarrow> 'w world
     \<Rightarrow> 'w world" where
  "StatusEvent success = SuccessStatusEvent"
| "StatusEvent failure = FailureStatusEvent"
| "StatusEvent warning = WarningStatusEvent"
| "StatusEvent pending = PendingStatusEvent"
| "StatusEvent info = InfoStatusEvent"

definition emit :: "severity \<Rightarrow> string \<Rightarrow> 'w \<Rightarrow> string \<Rightarrow> 'w world \<Rightarrow> 'w world" where
  "emit sev goos w m st =
     (if logAsJSON st then logJSON w (tag sev) m st
      else if goos = windowsOS then Write w (m @ [LF]) st
      else Write w (icon sev @ ''  '' @ m @ [LF]) st)"

text \<open>Calling a completion function several times, in the order of a list of results.\<close>

fun complete_all ::
  "(string \<Rightarrow> 'a list \<Rightarrow> string) \<Rightarrow> string \<Rightarrow> 'w completion \<Rightarrow> Result list \<Rightarrow> 'w world
     \<Rightarrow> 'w completion \<times> 'w world" where
  "complete_all S goos c [] st = (c, st)"
| "complete_all S goos c (r # rs) st =
     (let (c', st') = complete S goos c r st in complete_all S goos c' rs st')"

text \<open>
  A process that uses the package: the world and the completion functions obtained so
  far. A call of the package is one of its public operations (a completion function is
  called by its position); \<open>ClockReads\<close> is time passing. \<open>start\<close> is the process before
  any call: the zero value of \<open>logAsJSON\<close> is \<open>false\<close>.
\<close>

datatype ('w, 'a) call =
    CallEnableJSONFormat
  | CallIsJSONLogEnabled
  | CallStatusEvent severity 'w string "'a list"
  | CallSpinner 'w string "'a list"
  | CallCompletion nat Result
  | ClockReads Time

record 'w process =
  state :: "'w world"
  funcs :: "'w completion list"

fun step ::
  "(string \<Rightarrow> 'a list \<Rightarrow> string) \<Rightarrow> string \<Rightarrow> 'w process \<Rightarrow> ('w, 'a) call \<Rightarrow> 'w process" where
  "step S goos p CallEnableJSONFormat = p\<lparr>state := EnableJSONFormat (state p)\<rparr>"
| "step S goos p CallIsJSONLogEnabled = p"
| "step S goos p (CallStatusEvent sev w fmtstr a) =
     p\<lparr>state := StatusEvent sev S goos w fmtstr a (state p)\<rparr>"
| "step S goos p (CallSpinner w fmtstr a) =
     (let (c, st) = Spinner S goos w fmtstr a (state p)
      in \<lparr>state = st, funcs = funcs p @ [c]\<rparr>)"
| "step S goos p (CallCompletion i result) =
     (if i < length (funcs p)
      then let (c, st) = complete S goos (funcs p ! i) result (state p)
           in \<lparr>state = st, funcs = (funcs p)[i := c]\<rparr>
      else p)"
| "step S goos p (ClockReads t) = p\<lparr>state := (state p)\<lparr>now := t\<rparr>\<rparr>"

definition run ::
  "(string \<Rightarrow> 'a list \<Rightarrow> string) \<Rightarrow> string \<Rightarrow> ('w, 'a) call list \<Rightarrow> 'w process \<Rightarrow> 'w process" where
  "run S goos calls p = foldl (step S goos) p calls"

definition start :: "Time \<Rightarrow> 'w process" where
  "start t = \<lparr>state = \<lparr>logAsJSON = False, now = t, written = []\<rparr>, funcs = []\<rparr>"

subsection \<open>Reading a JSON line\<close>

text \<open>
  What the encoder makes of a message: \<open>ToValidUTF8\<close> puts the replacement character
  U+FFFD in the place of every byte that starts no well-formed sequence, and
  \<open>ValidString\<close> holds of the strings that have no such byte.
\<close>

function ToValidUTF8 :: "string \<Rightarrow> string" where
  "ToValidUTF8 [] = []"
| "ToValidUTF8 (b # bs) =
     (let n = runeLen (b # bs)
      in if n = 0 then Replacement @ ToValidUTF8 bs
         else take n (b # bs) @ ToValidUTF8 (drop (n - 1) bs))"
  by pat_completeness auto
termination
  by (relation "measure length") auto

function ValidString :: "string \<Rightarrow> bool" where
  "ValidString [] = True"
| "ValidString (b # bs) =
     (let n = runeLen (b # bs) in n \<noteq> 0 \<and> ValidString (drop (n - 1) bs))"
  by pat_completeness auto
termination
  by (relation "measure length") auto

text \<open>
  A reader for JSON objects whose members are strings, written without white space,
  after RFC 8259: \<open>json_string\<close> reads a string up to its closing quote and decodes the
  escapes; \<open>json_object\<close> returns the members of an object, in order. Inside strings
  it refuses control characters, escapes of surrogates and bytes that are not
  well-formed UTF-8, so every text it accepts is a JSON object.
\<close>

definition hexval :: "char \<Rightarrow> nat option" where
  "hexval c =
     (let x = (of_char c :: nat)
      in if 48 \<le> x \<and> x \<le> 57 then Some (x - 48)
         else if 97 \<le> x \<and> x \<le> 102 then Some (x - 87)
         else if 65 \<le> x \<and> x \<le> 70 then Some (x - 55)
         else None)"

definition hex4 :: "char \<Rightarrow> char \<Rightarrow> char \<Rightarrow> char \<Rightarrow> nat option" where
  "hex4 a b c d =
     (case (hexval a, hexval b, hexval c, hexval d) of
        (Some p, Some q, Some r, Some s) \<Rightarrow> Some (((p * 16 + q) * 16 + r) * 16 + s)
      | _ \<Rightarrow> None)"

definition utf8 :: "nat \<Rightarrow> string option" where
  "utf8 cp =
     (if cp < 0x80 then Some [char_of cp]
      else if cp < 0x800 then Some [char_of (0xC0 + cp div 64), char_of (0x80 + cp mod 64)]
      else if 0xD800 \<le> cp \<and> cp < 0xE000 then None
      else Some [char_of (0xE0 + cp div 4096), char_of (0x80 + cp div 64 mod 64),
                 char_of (0x80 + cp mod 64)])"

definition unescape :: "char \<Rightarrow> char option" where
  "unescape e =
     (if e = QUO \<or> e = BSL \<or> e = CHR ''/'' then Some e
      else if e = CHR ''b'' then Some (CHR 0x08)
      else if e = CHR ''f'' then Some (CHR 0x0C)
      else if e = CHR ''n'' then Some (CHR 0x0A)
      else if e = CHR ''r'' then Some (CHR 0x0D)
      else if e = CHR ''t'' then Some (CHR 0x09)
      else None)"

definition followed :: "string \<Rightarrow> (string \<times> string) option \<Rightarrow> (string \<times> string) option" where
  "followed xs r = map_option (\<lambda>(s, rest). (xs @ s, rest)) r"

function json_string :: "string \<Rightarrow> (string \<times> string) option" where
  "json_string [] = None"
| "json_string (c # cs) =
     (if c = QUO then Some ([], cs)
      else if c = BSL then
        (case cs of
           [] \<Rightarrow> None
         | e # r \<Rightarrow>
             if e = CHR ''u'' then
               (case r of
                  h1 # h2 # h3 # h4 # r' \<Rightarrow>
                    (case Option.bind (hex4 h1 h2 h3 h4) utf8 of
                       None \<Rightarrow> None
                     | Some bytes \<Rightarrow> followed bytes (json_string r'))
                | _ \<Rightarrow> None)
             else
               (case unescape e of
                  None \<Rightarrow> None
                | Some x \<Rightarrow> followed [x] (json_string r)))
      else if (of_char c :: nat) < 0x20 then None
      else if (of_char c :: nat) < 0x80 then followed [c] (json_string cs)
      else let n = runeLen (c # cs)
           in if n = 0 then None
              else followed (take n (c # cs)) (json_string (drop (n - 1) cs)))"
  by pat_completeness auto
termination
  by (relation "measure length") auto

definition expect :: "char \<Rightarrow> string \<Rightarrow> string option" where
  "expect c s = (case s of [] \<Rightarrow> None | x # r \<Rightarrow> if x = c then Some r else None)"

definition json_member :: "string \<Rightarrow> ((string \<times> string) \<times> string) option" where
  "json_member s =
     Option.bind (expect QUO s) (\<lambda>r.
     Option.bind (json_string r) (\<lambda>(k, r).
     Option.bind (expect (CHR '':'') r) (\<lambda>r.
     Option.bind (expect QUO r) (\<lambda>r.
     Option.bind (json_string r) (\<lambda>(v, r). Some ((k, v), r))))))"

function json_members :: "string \<Rightarrow> (string \<times> string) list option" where
  "json_members s =
     (case json_member s of
        None \<Rightarrow> None
      | Some (kv, r) \<Rightarrow>
          if r = ''}'' then Some [kv]
          else (case expect (CHR '','') r of
                  None \<Rightarrow> None
                | Some r' \<Rightarrow> map_option ((#) kv) (json_members r')))"
  by pat_completeness auto
termination
proof (relation "measure length")
  show "wf (measure length)" by simp
next
  have ex: "expect c s = Some r \<Longrightarrow> length r < length s" for c s r
    by (cases s) (auto simp: expect_def split: if_splits)
  have str: "json_string s = Some (x, r) \<Longrightarrow> length r < length s" for s x r
  proof (induction s arbitrary: x r rule: json_string.induct)
    case 1
    then show ?case by simp
  next
    case (2 c cs)
    show ?case
    proof (cases "c = QUO")
      case True
      with "2.prems" show ?thesis by simp
    next
      case q: False
      show ?thesis
      proof (cases "c = BSL")
        case b: False
        from q b "2.prems" have ctl: "\<not> (of_char c :: nat) < 0x20"
          by (auto split: if_splits)
        show ?thesis
        proof (cases "(of_char c :: nat) < 0x80")
          case True
          with q b ctl "2.prems" obtain y where "json_string cs = Some (y, r)"
            by (auto simp: followed_def)
          with "2.IH"(3) [OF q b ctl True] show ?thesis
            by fastforce
        next
          case False
          define n where "n = runeLen (c # cs)"
          from q b ctl False "2.prems" have n0: "n \<noteq> 0"
            by (auto simp: n_def Let_def split: if_splits)
          with q b ctl False "2.prems" obtain y where
            "json_string (drop (n - 1) cs) = Some (y, r)"
            by (auto simp: followed_def n_def Let_def)
          with "2.IH"(4) [OF q b ctl False n_def n0]
          have "length r < length (drop (n - 1) cs)" by fastforce
          then show ?thesis by simp
        qed
      next
        case True
        from "2.prems" q True obtain e t where cs: "cs = e # t"
          by (cases cs) auto
        show ?thesis
        proof (cases "e = CHR ''u''")
          case False
          with "2.prems" q True cs obtain y where "json_string t = Some (y, r)"
            by (auto simp: followed_def split: option.splits)
          with "2.IH"(2) [OF q True cs False] "2.prems" q True cs False show ?thesis
            by (fastforce split: option.splits)
        next
          case u: True
          from "2.prems" q True cs u obtain h1 h2 h3 h4 t' where t: "t = h1 # h2 # h3 # h4 # t'"
            by (auto split: list.splits)
          with "2.prems" q True cs u obtain y bytes where
            "Option.bind (hex4 h1 h2 h3 h4) utf8 = Some bytes" "json_string t' = Some (y, r)"
            by (auto simp: followed_def split: option.splits)
          with "2.IH"(1) [OF q True cs u t] show ?thesis
            using cs t by fastforce
        qed
      qed
    qed
  qed
  fix s x2 kv r r'
  assume "json_member s = Some x2" "(kv, r) = x2" "expect (CHR '','') r = Some r'"
  then have "json_member s = Some (kv, r)" and "length r' < length r"
    by (simp_all add: ex)
  moreover from this(1) have "length r < length s"
    by (auto simp: json_member_def bind_eq_Some_conv dest!: ex str)
  ultimately show "(r', s) \<in> measure length" by simp
qed

definition json_object :: "string \<Rightarrow> (string \<times> string) list option" where
  "json_object s =
     (case s of
        [] \<Rightarrow> None
      | c # r \<Rightarrow>
          if c \<noteq> CHR ''{'' then None
          else if r = ''}'' then Some []
          else json_members r)"

definition plain :: "char \<Rightarrow> bool" where
  "plain c = (0x20 \<le> (of_char c :: nat) \<and> (of_char c :: nat) < 0x80 \<and> c \<noteq> QUO \<and> c \<noteq> BSL)"

subsection \<open>Lines of a text and the head of the report\<close>

text \<open>The five lines every report starts with.\<close>

definition report_head :: "host \<Rightarrow> string \<Rightarrow> string list" where
  "report_head h version =
     [''CLI:'',
      TAB # ''Version: '' @ version,
      TAB # ''Git Commit: '' @ gitcommit h,
      TAB # ''Git Version: '' @ gitversion h,
      ''Runtime:'']"




subsection \<open>Worked examples\<close>

definition noon :: Time where
  "noon = \<lparr>year = 2021, month = 3, day = 9, hour = 12, minute = 0, second = 0,
           nanosecond = 0\<rparr>"

definition far_future :: Time where
  "far_future = \<lparr>year = 10000, month = 1, day = 1, hour = 0, minute = 0, second = 0,
           nanosecond = 0\<rparr>"

definition json_world :: "nat world" where
  "json_world = \<lparr>logAsJSON = True, now = noon, written = []\<rparr>"

definition human_world :: "nat world" where
  "human_world = \<lparr>logAsJSON = False, now = noon, written = []\<rparr>"

definition late_world :: "nat world" where
  "late_world = \<lparr>logAsJSON = True, now = far_future, written = []\<rparr>"

definition replaced_json :: string where
  "replaced_json =
     [CHR ''{'', QUO] @ ''time'' @ [QUO, CHR '':'', QUO] @ ''2021-03-09T12:00:00Z'' @
     [QUO, CHR '','', QUO] @ ''status'' @ [QUO, CHR '':'', QUO] @ ''success'' @
     [QUO, CHR '','', QUO] @ ''msg'' @ [QUO, CHR '':'', QUO, BSL] @ ''ufffd'' @
     [QUO, CHR ''}'']"

text \<open>A host with a runtime that answers \<open>--version\<close> only, and no dashboard.\<close>

definition old_runtime_host :: host where
  "old_runtime_host =
     \<lparr>defaultDaprBinPath = ''/home/u/.dapr/bin'',
      binaryFilePath = (\<lambda>dir name. dir @ ''/'' @ name),
      gitcommit = ''abc123'',
      gitversion = ''v1.0.0-rc'',
      Output = (\<lambda>cmd args.
         if cmd = ''/home/u/.dapr/bin/daprd'' \<and> args = [''--version'']
         then (''1.2.3'' @ [LF], None)
         else if cmd = ''/home/u/.dapr/bin/daprd'' then ([], Some (ExitError 2))
         else ([], Some NotFound))\<rparr>"

text \<open>A host whose runtime answers \<open>--build-info\<close> with nothing at all.\<close>

definition silent_runtime_host :: host where
  "silent_runtime_host =
     \<lparr>defaultDaprBinPath = ''/home/u/.dapr/bin'',
      binaryFilePath = (\<lambda>dir name. dir @ ''/'' @ name),
      gitcommit = ''abc123'',
      gitversion = ''v1.0.0-rc'',
      Output = (\<lambda>cmd args. ([], None))\<rparr>"



text \<open>A host with no runtime and no dashboard installed.\<close>

definition bare_host :: host where
  "bare_host =
     \<lparr>defaultDaprBinPath = ''/home/u/.dapr/bin'',
      binaryFilePath = (\<lambda>dir name. dir @ ''/'' @ name),
      gitcommit = ''abc123'',
      gitversion = ''v1.0.0-rc'',
      Output = (\<lambda>cmd args. ([], Some NotFound))\<rparr>"

text \<open>
  The recursive equations of the functions defined by \<open>function\<close> are applied by hand.
\<close>

declare runeLen.simps [simp del] appendBody.simps [simp del] ToValidUTF8.simps [simp del]
  ValidString.simps [simp del] json_members.simps [simp del]

section \<open>The JSON line can be read back\<close>

lemma followed_simps [simp]:
  "followed [] r = r"
  "followed xs (Some (s, rest)) = Some (xs @ s, rest)"
  "followed xs None = None"
  "followed xs (followed ys r) = followed (xs @ ys) r"
  by (cases r; simp add: followed_def split_beta)+

lemma hexval_hex: "k < 16 \<Longrightarrow> hexval (hex ! k) = Some k"
proof -
  assume "k < 16"
  then have "k \<in> {0, 1, 2, 3, 4, 5, 6, 7, 8, 9, 10, 11, 12, 13, 14, 15}" by simp arith
  then show ?thesis
    by (auto simp: hex_def hexval_def)
qed

lemma json_string_escape:
  assumes "(of_char b :: nat) < 0x80"
  shows "json_string (escape b @ X) = followed [b] (json_string X)"
proof -
  consider (safe) "htmlSafe b"
    | (self) "\<not> htmlSafe b" "b = BSL \<or> b = QUO"
    | (short) "\<not> htmlSafe b" "b \<noteq> BSL" "b \<noteq> QUO" "b \<in> {CHR 0x08, CHR 0x0C, CHR 0x0A, CHR 0x0D, CHR 0x09}"
    | (uni) "\<not> htmlSafe b" "b \<noteq> BSL" "b \<noteq> QUO" "b \<notin> {CHR 0x08, CHR 0x0C, CHR 0x0A, CHR 0x0D, CHR 0x09}"
    by blast
  then show ?thesis
  proof cases
    case safe
    then show ?thesis by (auto simp: escape_def htmlSafe_def)
  next
    case self
    then show ?thesis by (auto simp: escape_def unescape_def QUO_def BSL_def)
  next
    case short
    then show ?thesis by (auto simp: escape_def unescape_def QUO_def BSL_def)
  next
    case uni
    let ?n = "of_char b :: nat"
    have "?n div 16 < 16" "?n mod 16 < 16" using assms by simp_all
    then have h: "hex4 (CHR ''0'') (CHR ''0'') (hex ! (?n div 16)) (hex ! (?n mod 16)) = Some ?n"
      by (simp add: hex4_def hexval_hex) (simp add: hexval_def)
    have u: "utf8 ?n = Some [b]" using assms by (simp add: utf8_def)
    from uni show ?thesis
      by (simp add: escape_def h u BSL_def QUO_def)
  qed
qed

lemma runeLen_le: "runeLen s \<le> length s"
  by (cases s) (auto simp: runeLen.simps Let_def split: list.splits)

lemma runeLen_prefix:
  "runeLen (b # bs) \<noteq> 0 \<Longrightarrow>
   runeLen (b # take (runeLen (b # bs) - 1) bs @ X) = runeLen (b # bs)"
  by (auto simp: runeLen.simps Let_def split: if_splits list.splits)

lemma json_string_rune:
  assumes "0x80 \<le> (of_char b :: nat)" and "runeLen (b # bs) \<noteq> 0"
  shows "json_string (take (runeLen (b # bs)) (b # bs) @ X) =
           followed (take (runeLen (b # bs)) (b # bs)) (json_string X)"
proof -
  define n where "n = runeLen (b # bs)"
  from assms(2) obtain k where k: "n = Suc k" by (cases n) (simp_all add: n_def)
  have kl: "k \<le> length bs" using runeLen_le [of "b # bs"] k by (simp add: n_def)
  then have len: "min (length bs) k = k" by simp
  have pre: "runeLen (b # take k bs @ X) = Suc k"
    using runeLen_prefix [OF assms(2), of X] k by (simp add: n_def)
  have "b \<noteq> QUO" "b \<noteq> BSL" "\<not> (of_char b :: nat) < 0x20" "\<not> (of_char b :: nat) < 0x80"
    using assms(1) by (auto simp: QUO_def BSL_def)
  then have "json_string (b # take k bs @ X) = followed (b # take k bs) (json_string X)"
    by (simp add: pre len)
  then show ?thesis using k by (simp add: n_def [symmetric])
qed

lemma runeLen_bytes:
  assumes "0x80 \<le> (of_char b :: nat)" "runeLen (b # bs) \<noteq> 0"
  shows "\<forall>c \<in> set (take (runeLen (b # bs)) (b # bs)). 0x80 \<le> (of_char c :: nat)"
  using assms
  by (auto simp: runeLen.simps Let_def between_def split: if_splits list.splits)

lemma utf8_values:
  "utf8 0xFFFD = Some Replacement" "utf8 0x2028 = Some LineSep" "utf8 0x2029 = Some ParaSep"
  by (simp_all add: utf8_def Replacement_def LineSep_def ParaSep_def char_of_eq_iff)

lemma hex4_values:
  "hex4 (CHR ''f'') (CHR ''f'') (CHR ''f'') (CHR ''d'') = Some 0xFFFD"
  "hex4 (CHR ''2'') (CHR ''0'') (CHR ''2'') (CHR ''8'') = Some 0x2028"
  "hex4 (CHR ''2'') (CHR ''0'') (CHR ''2'') (CHR ''9'') = Some 0x2029"
  by (simp_all add: hex4_def hexval_def)

lemma json_string_u:
  "json_string (BSL # ''ufffd'' @ X) = followed Replacement (json_string X)"
  "json_string (BSL # ''u2028'' @ X) = followed LineSep (json_string X)"
  "json_string (BSL # ''u2029'' @ X) = followed ParaSep (json_string X)"
  by (simp_all add: hex4_values utf8_values BSL_def QUO_def)

lemma runeLen_seps:
  "take 3 (b # bs) = LineSep \<or> take 3 (b # bs) = ParaSep \<Longrightarrow> runeLen (b # bs) = 3"
  by (auto simp: runeLen.simps LineSep_def ParaSep_def between_def split: list.splits)

lemma json_string_appendBody:
  "json_string (appendBody m @ QUO # rest) = Some (ToValidUTF8 m, rest)"
proof (induction m rule: appendBody.induct)
  case 1
  show ?case by (simp add: appendBody.simps ToValidUTF8.simps)
next
  case (2 b bs)
  show ?case
  proof (cases "(of_char b :: nat) < 0x80")
    case True
    then have "ToValidUTF8 (b # bs) = b # ToValidUTF8 bs"
      by (subst ToValidUTF8.simps) (simp add: runeLen.simps)
    with True 2(1) show ?thesis
      by (subst appendBody.simps) (simp add: json_string_escape)
  next
    case False
    define n where "n = runeLen (b # bs)"
    consider (bad) "n = 0"
      | (ls) "n \<noteq> 0" "take 3 (b # bs) = LineSep"
      | (ps) "n \<noteq> 0" "take 3 (b # bs) \<noteq> LineSep" "take 3 (b # bs) = ParaSep"
      | (copy) "n \<noteq> 0" "take 3 (b # bs) \<noteq> LineSep" "take 3 (b # bs) \<noteq> ParaSep"
      by blast
    then show ?thesis
    proof cases
      case bad
      then have "ToValidUTF8 (b # bs) = Replacement @ ToValidUTF8 bs"
        by (subst ToValidUTF8.simps) (simp add: n_def)
      moreover have "appendBody (b # bs) = BSL # ''ufffd'' @ appendBody bs"
        using False bad by (subst appendBody.simps) (simp add: n_def)
      ultimately show ?thesis
        using 2(2) [OF False n_def bad] json_string_u(1) [of "appendBody bs @ QUO # rest"]
        by simp
    next
      case ls
      then have n3: "n = 3" using runeLen_seps [of b bs] by (simp add: n_def)
      have "ToValidUTF8 (b # bs) = LineSep @ ToValidUTF8 (drop 2 bs)"
        using ls n3 by (subst ToValidUTF8.simps) (simp add: n_def [symmetric])
      moreover have "appendBody (b # bs) = BSL # ''u2028'' @ appendBody (drop 2 bs)"
        using False ls by (subst appendBody.simps) (simp add: n_def [symmetric])
      ultimately show ?thesis
        using 2(3) [OF False n_def ls] json_string_u(2) [of "appendBody (drop 2 bs) @ QUO # rest"]
        by simp
    next
      case ps
      then have n3: "n = 3" using runeLen_seps [of b bs] by (simp add: n_def)
      have "ToValidUTF8 (b # bs) = ParaSep @ ToValidUTF8 (drop 2 bs)"
        using ps n3 by (subst ToValidUTF8.simps) (simp add: n_def [symmetric])
      moreover have "appendBody (b # bs) = BSL # ''u2029'' @ appendBody (drop 2 bs)"
        using False ps by (subst appendBody.simps) (simp add: n_def [symmetric])
      ultimately show ?thesis
        using 2(4) [OF False n_def ps] json_string_u(3) [of "appendBody (drop 2 bs) @ QUO # rest"]
        by simp
    next
      case copy
      have "ToValidUTF8 (b # bs) = take n (b # bs) @ ToValidUTF8 (drop (n - 1) bs)"
        using copy by (subst ToValidUTF8.simps) (simp add: n_def [symmetric])
      moreover have "appendBody (b # bs) = take n (b # bs) @ appendBody (drop (n - 1) bs)"
        using False copy by (subst appendBody.simps) (simp add: n_def [symmetric])
      ultimately show ?thesis
        using 2(5) [OF False n_def copy]
          json_string_rune [of b bs "appendBody (drop (n - 1) bs) @ QUO # rest"] False copy(1)
        by (simp add: n_def [symmetric])
    qed
  qed
qed

lemma ValidString_ToValidUTF8: "ValidString m \<Longrightarrow> ToValidUTF8 m = m"
proof (induction m rule: ValidString.induct)
  case 1
  show ?case by (simp add: ToValidUTF8.simps)
next
  case (2 b bs)
  define n where "n = runeLen (b # bs)"
  from "2.prems" have n0: "n \<noteq> 0" and v: "ValidString (drop (n - 1) bs)"
    by (simp_all add: ValidString.simps n_def Let_def)
  have "ToValidUTF8 (drop (n - 1) bs) = drop (n - 1) bs"
    using "2.IH" [OF n_def v] .
  moreover have "take n (b # bs) @ drop (n - 1) bs = b # bs"
    using n0 by (cases n) simp_all
  ultimately show ?case
    using n0 by (subst ToValidUTF8.simps) (simp add: n_def [symmetric])
qed

lemma json_string_plain:
  "\<forall>c \<in> set xs. plain c \<Longrightarrow> json_string (xs @ X) = followed xs (json_string X)"
proof (induction xs)
  case Nil
  then show ?case by simp
next
  case (Cons c xs)
  then have "c \<noteq> QUO" "c \<noteq> BSL" "\<not> (of_char c :: nat) < 0x20" "(of_char c :: nat) < 0x80"
    by (auto simp: plain_def)
  with Cons show ?case by simp
qed

lemma digit_plain: "plain (''0123456789'' ! (n mod 10))"
proof -
  have "n mod 10 \<in> {0, 1, 2, 3, 4, 5, 6, 7, 8, 9}" by simp arith
  then show ?thesis by (auto simp: plain_def QUO_def BSL_def)
qed

lemma digits_plain: "\<forall>c \<in> set (digits w n). plain c"
  by (induction w n rule: digits.induct) (auto simp: digit_plain)

lemma fraction_plain: "\<forall>c \<in> set (fraction ns). plain c"
proof -
  have "set (dropWhile (\<lambda>c. c = CHR ''0'') (rev (digits 9 ns))) \<subseteq> set (digits 9 ns)"
    using set_dropWhileD by fastforce
  then show ?thesis
    using digits_plain [of 9 ns] by (auto simp: fraction_def plain_def QUO_def BSL_def)
qed

lemma RFC3339Nano_plain: "\<forall>c \<in> set (RFC3339Nano t). plain c"
proof -
  have "plain (CHR ''-'')" "plain (CHR ''T'')" "plain (CHR '':'')" "plain (CHR ''Z'')"
    by (simp_all add: plain_def QUO_def BSL_def)
  then show ?thesis
    using digits_plain fraction_plain
    by (simp add: RFC3339Nano_def ball_Un)
qed

lemma json_string_time:
  "json_string (RFC3339Nano t @ QUO # rest) = Some (RFC3339Nano t, rest)"
  using json_string_plain [OF RFC3339Nano_plain, of t "QUO # rest"] by simp

lemma ToValidUTF8_keys:
  "ToValidUTF8 ''time'' = ''time''" "ToValidUTF8 ''status'' = ''status''"
  "ToValidUTF8 ''msg'' = ''msg''"
  by (simp_all add: ToValidUTF8.simps runeLen.simps)

lemma json_member_encoded:
  "json_member (appendString k @ CHR '':'' # appendString v @ rest) =
     Some ((ToValidUTF8 k, ToValidUTF8 v), rest)"
  by (simp add: json_member_def appendString_def expect_def json_string_appendBody)

lemma json_member_time:
  "json_member (appendString k @ CHR '':'' # QUO # RFC3339Nano t @ QUO # rest) =
     Some ((ToValidUTF8 k, RFC3339Nano t), rest)"
  by (simp add: json_member_def appendString_def expect_def json_string_appendBody
        json_string_time)

lemma json_object_Marshal:
  assumes "Marshal l = Some j"
  shows "json_object j =
           Some [(''time'', RFC3339Nano (Time l)),
                 (''status'', ToValidUTF8 (Status l)),
                 (''msg'', ToValidUTF8 (Message l))]"
proof -
  let ?m3 = "appendString ''msg'' @ CHR '':'' # appendString (Message l) @ ''}''"
  let ?m2 = "appendString ''status'' @ CHR '':'' # appendString (Status l) @ CHR '','' # ?m3"
  let ?m1 = "appendString ''time'' @ CHR '':'' # QUO # RFC3339Nano (Time l) @ QUO # CHR '','' # ?m2"
  from assms have j: "j = CHR ''{'' # ?m1"
    by (auto simp: Marshal_def Time_MarshalJSON_def split: if_splits)
  have 3: "json_members ?m3 = Some [(''msg'', ToValidUTF8 (Message l))]"
    by (subst json_members.simps) (simp add: json_member_encoded ToValidUTF8_keys)
  have 2: "json_members ?m2 =
             Some [(''status'', ToValidUTF8 (Status l)), (''msg'', ToValidUTF8 (Message l))]"
    by (subst json_members.simps) (simp add: json_member_encoded ToValidUTF8_keys expect_def 3)
  have 1: "json_members ?m1 =
             Some [(''time'', RFC3339Nano (Time l)), (''status'', ToValidUTF8 (Status l)),
                   (''msg'', ToValidUTF8 (Message l))]"
    by (subst json_members.simps) (simp add: json_member_time ToValidUTF8_keys expect_def 2)
  have "?m1 \<noteq> ''}''" by (simp add: appendString_def QUO_def)
  then show ?thesis unfolding j json_object_def using 1 by simp
qed

lemma hex_printable: "k < 16 \<Longrightarrow> 0x20 \<le> (of_char (hex ! k) :: nat)"
proof -
  assume "k < 16"
  then have "k \<in> {0, 1, 2, 3, 4, 5, 6, 7, 8, 9, 10, 11, 12, 13, 14, 15}" by simp arith
  then show ?thesis by (auto simp: hex_def)
qed

lemma escape_printable: "\<forall>c \<in> set (escape b). 0x20 \<le> (of_char c :: nat)"
proof (cases "htmlSafe b")
  case True
  then show ?thesis by (simp add: escape_def htmlSafe_def)
next
  case False
  have "(of_char b :: nat) < 256" by simp
  then have "(of_char b :: nat) div 16 < 16" "(of_char b :: nat) mod 16 < 16"
    by arith+
  then have "0x20 \<le> (of_char (hex ! (of_char b div 16)) :: nat)"
    "0x20 \<le> (of_char (hex ! (of_char b mod 16)) :: nat)"
    by (simp_all add: hex_printable)
  with False show ?thesis by (simp add: escape_def BSL_def QUO_def)
qed

lemma appendBody_printable: "\<forall>c \<in> set (appendBody m). 0x20 \<le> (of_char c :: nat)"
proof (induction m rule: appendBody.induct)
  case 1
  show ?case by (simp add: appendBody.simps)
next
  case (2 b bs)
  show ?case
  proof (cases "(of_char b :: nat) < 0x80")
    case True
    with 2(1) escape_printable [of b] show ?thesis
      by (subst appendBody.simps) auto
  next
    case False
    define n where "n = runeLen (b # bs)"
    have hi: "n \<noteq> 0 \<Longrightarrow> \<forall>c \<in> set (take n (b # bs)). 0x20 \<le> (of_char c :: nat)"
      using runeLen_bytes [of b bs] False by (fastforce simp: n_def)
    show ?thesis
      using False 2(2-5) [OF False n_def] hi
      by (subst appendBody.simps) (auto simp: n_def [symmetric] BSL_def Let_def)
  qed
qed

lemma Marshal_printable:
  assumes "Marshal l = Some j"
  shows "\<forall>c \<in> set j. 0x20 \<le> (of_char c :: nat)"
proof -
  have "\<forall>c \<in> set (RFC3339Nano (Time l)). 0x20 \<le> (of_char c :: nat)"
    using RFC3339Nano_plain by (auto simp: plain_def)
  with assms appendBody_printable show ?thesis
    by (auto simp: Marshal_def Time_MarshalJSON_def appendString_def QUO_def
          split: if_splits)
qed

section \<open>Properties of the status reporter and the spinner\<close>

lemma LF_not_percent [simp]: "LF \<noteq> CHR ''%''"
  by (simp add: LF_def)

lemma Sprintf_line: "Sprintf (''%s'' @ [LF]) [m] = m @ [LF]"
  by simp

lemma Sprintf_icon: "Sprintf (icon sev @ ''  %s'' @ [LF]) [m] = icon sev @ ''  '' @ m @ [LF]"
  by (cases sev) simp_all

lemma Sprintf_suffix: "Sprintf ''  %s'' [m] = ''  '' @ m"
  by simp

lemma Sprintln_one: "Sprintln [m] = m @ [LF]"
  by (simp add: Sprintln_def)

lemma Sprintf_no_percent: "CHR ''%'' \<notin> set m \<Longrightarrow> Sprintf m [] = m"
  by (induction m) auto

lemma StatusEvent_emit: "StatusEvent sev S goos w fmtstr a st = emit sev goos w (S fmtstr a) st"
  by (cases sev)
     (simp_all add: emit_def SuccessStatusEvent_def FailureStatusEvent_def
        WarningStatusEvent_def PendingStatusEvent_def InfoStatusEvent_def Fprintf_def)

lemma logJSON_cases:
  "logJSON w status m st =
     Write w ((case Marshal \<lparr>Time = now st, Status = status, Message = m\<rparr> of
                 None \<Rightarrow> m | Some j \<Rightarrow> j) @ [LF]) st"
  by (simp add: logJSON_def Fprintf_def Fprintln_def Sprintln_one split: option.splits)

lemma emit_one_write: "\<exists>line. emit sev goos w m st = st\<lparr>written := written st @ [(w, line)]\<rparr>"
  by (auto simp: emit_def logJSON_cases Write_def)

lemma logAsJSON_emit [simp]: "logAsJSON (emit sev goos w m st) = logAsJSON st"
  using emit_one_write [of sev goos w m st] by auto

lemma logAsJSON_Spinner [simp]: "logAsJSON (snd (Spinner S goos w fmtstr a st)) = logAsJSON st"
  using logAsJSON_emit [of pending goos w "S fmtstr a" st]
  by (auto simp: Spinner_def Let_def emit_def Fprintf_def Write_def
        simp del: logAsJSON_emit)

lemma complete_emit:
  "snd (complete S goos c r st) =
     (case c of Dummy \<Rightarrow> st
      | Guarded cl \<Rightarrow> if cl_once cl then st
          else emit (if r then success else failure) goos (cl_w cl) (S (cl_msg cl) []) st)"
  using StatusEvent_emit [of success S goos _ _ "[]" st]
        StatusEvent_emit [of failure S goos _ _ "[]" st]
  by (cases c) simp_all

lemma logAsJSON_complete [simp]: "logAsJSON (snd (complete S goos c r st)) = logAsJSON st"
  by (simp add: complete_emit split: completion.splits)

lemma logAsJSON_step: "logAsJSON (state (step S goos p c)) = (logAsJSON (state p) \<or> c = CallEnableJSONFormat)"
proof (cases c)
  case (CallSpinner w fmtstr a)
  then show ?thesis
    using logAsJSON_Spinner [of S goos w fmtstr a "state p"]
    by (simp add: split_beta del: logAsJSON_Spinner)
next
  case (CallCompletion i r)
  then show ?thesis
    using logAsJSON_complete [of S goos "funcs p ! i" r "state p"]
    by (simp add: split_beta del: logAsJSON_complete)
qed (simp_all add: EnableJSONFormat_def StatusEvent_emit)

lemma logAsJSON_run:
  "logAsJSON (state (run S goos calls p)) =
     (logAsJSON (state p) \<or> CallEnableJSONFormat \<in> set calls)"
  unfolding run_def
  by (induction calls arbitrary: p) (auto simp: logAsJSON_step)


lemma complete_all_Dummy: "complete_all S goos Dummy rs st = (Dummy, st)"
  by (induction rs) simp_all


lemma Marshal_Some:
  "0 \<le> year t \<Longrightarrow> year t < 10000 \<Longrightarrow> \<exists>j. Marshal \<lparr>Time = t, Status = x, Message = m\<rparr> = Some j"
  by (simp add: Marshal_def Time_MarshalJSON_def)

lemma Marshal_None:
  "year t < 0 \<or> 10000 \<le> year t \<Longrightarrow> Marshal \<lparr>Time = t, Status = x, Message = m\<rparr> = None"
  by (auto simp: Marshal_def Time_MarshalJSON_def)

lemma ToValidUTF8_tag: "ToValidUTF8 (tag sev) = tag sev"
  by (cases sev) (simp_all add: ToValidUTF8.simps runeLen.simps)

text \<open>
  Claim C2. In JSON mode, each of the five status-event functions makes one write: a
  line that is a JSON object whose \<open>status\<close> is the tag of the function and whose \<open>msg\<close>
  is the formatted message. This holds as long as the clock reads a year of four digits
  (otherwise serialization fails, see claim C8) and with the message as the encoder
  leaves it: bytes that are not well-formed UTF-8 are replaced by U+FFFD, so \<open>msg\<close>
  equals the formatted message exactly when that message is valid UTF-8.
\<close>

theorem json_status_line:
  assumes "logAsJSON st" and "0 \<le> year (now st)" and "year (now st) < 10000"
  shows "\<exists>j kv. StatusEvent sev S goos w fmtstr a st =
                   st\<lparr>written := written st @ [(w, j @ [LF])]\<rparr> \<and>
                 LF \<notin> set j \<and>
                 json_object j = Some kv \<and>
                 map_of kv ''status'' = Some (tag sev) \<and>
                 map_of kv ''msg'' = Some (ToValidUTF8 (S fmtstr a)) \<and>
                 (ValidString (S fmtstr a) \<longrightarrow> map_of kv ''msg'' = Some (S fmtstr a)) \<and>
                 map_of kv ''time'' = Some (RFC3339Nano (now st))"
proof -
  let ?l = "\<lparr>Time = now st, Status = tag sev, Message = S fmtstr a\<rparr>"
  from assms(2,3) obtain j where j: "Marshal ?l = Some j"
    using Marshal_Some by blast
  have "StatusEvent sev S goos w fmtstr a st = st\<lparr>written := written st @ [(w, j @ [LF])]\<rparr>"
    using assms(1) j by (simp add: StatusEvent_emit emit_def logJSON_cases Write_def)
  moreover have "LF \<notin> set j"
    using Marshal_printable [OF j] by (auto simp: LF_def)
  moreover have "json_object j =
      Some [(''time'', RFC3339Nano (now st)), (''status'', tag sev),
            (''msg'', ToValidUTF8 (S fmtstr a))]"
    using json_object_Marshal [OF j] by (simp add: ToValidUTF8_tag)
  ultimately show ?thesis
    by (auto simp: ValidString_ToValidUTF8)
qed

theorem json_status_line_witness:
  "logAsJSON json_world \<and> 0 \<le> year (now json_world) \<and> year (now json_world) < 10000 \<and>
   ValidString (Sprintf ''hello %s'' [''dapr'']) \<and>
   (\<exists>j kv. SuccessStatusEvent Sprintf ''linux'' 0 ''hello %s'' [''dapr''] json_world =
             json_world\<lparr>written := [(0, j @ [LF])]\<rparr> \<and>
           LF \<notin> set j \<and> json_object j = Some kv \<and>
           map_of kv ''status'' = Some ''success'' \<and>
           map_of kv ''msg'' = Some ''hello dapr'')"
proof -
  have v: "ValidString (Sprintf ''hello %s'' [''dapr''])"
    by (simp add: ValidString.simps runeLen.simps)
  have h: "logAsJSON json_world" "0 \<le> year (now json_world)" "year (now json_world) < 10000"
    by (simp_all add: json_world_def noon_def)
  from json_status_line [OF h, of success Sprintf "''linux''" 0 "''hello %s''" "[''dapr'']"] v
  show ?thesis using h by (simp add: json_world_def) blast
qed

lemma RFC3339Nano_noon: "RFC3339Nano noon = ''2021-03-09T12:00:00Z''"
  by code_simp

lemma Marshal_replaced:
  "Marshal \<lparr>Time = noon, Status = ''success'', Message = [CHR 0xFF]\<rparr> = Some replaced_json"
  by code_simp

text \<open>
  Claim C2 as it is written fails for a message that is not valid UTF-8: formatting the
  single byte \<open>FF\<close> with \<open>%s\<close> gives that byte, and the line written carries
  the escape of U+FFFD as its \<open>msg\<close>, which reads back as the three bytes of U+FFFD.
\<close>

theorem invalid_utf8_replaced:
  "Sprintf ''%s'' [[CHR 0xFF]] = [CHR 0xFF] \<and>
   SuccessStatusEvent Sprintf ''linux'' 0 ''%s'' [[CHR 0xFF]] json_world =
     json_world\<lparr>written := [(0, replaced_json @ [LF])]\<rparr> \<and>
   json_object replaced_json =
     Some [(''time'', ''2021-03-09T12:00:00Z''), (''status'', ''success''),
           (''msg'', [CHR 0xEF, CHR 0xBF, CHR 0xBD])] \<and>
   [CHR 0xEF, CHR 0xBF, CHR 0xBD] \<noteq> [CHR 0xFF]"
proof -
  have "SuccessStatusEvent Sprintf ''linux'' 0 ''%s'' [[CHR 0xFF]] json_world =
          json_world\<lparr>written := [(0, replaced_json @ [LF])]\<rparr>"
    by (simp add: SuccessStatusEvent_def json_world_def logJSON_cases Marshal_replaced Write_def)
  moreover have "json_object replaced_json =
     Some [(''time'', ''2021-03-09T12:00:00Z''), (''status'', ''success''),
           (''msg'', [CHR 0xEF, CHR 0xBF, CHR 0xBD])]"
    using json_object_Marshal [OF Marshal_replaced]
    by (simp add: RFC3339Nano_noon ToValidUTF8.simps runeLen.simps Replacement_def)
  ultimately show ?thesis by simp
qed

text \<open>
  Claim C6. In human mode on a platform other than Windows, each status-event function
  writes its icon, two spaces, the formatted message and a newline: the check mark for
  success, the cross mark for failure, the warning sign for warning, the hourglass for
  pending and the information sign for info.
\<close>

theorem human_icon_line:
  assumes "\<not> logAsJSON st" and "goos \<noteq> windowsOS"
  shows "SuccessStatusEvent S goos w fmtstr a st =
           st\<lparr>written := written st @
                [(w, [CHR 0xE2, CHR 0x9C, CHR 0x85] @ ''  '' @ S fmtstr a @ [LF])]\<rparr> \<and>
         FailureStatusEvent S goos w fmtstr a st =
           st\<lparr>written := written st @
                [(w, [CHR 0xE2, CHR 0x9D, CHR 0x8C] @ ''  '' @ S fmtstr a @ [LF])]\<rparr> \<and>
         WarningStatusEvent S goos w fmtstr a st =
           st\<lparr>written := written st @
                [(w, [CHR 0xE2, CHR 0x9A, CHR 0xA0] @ ''  '' @ S fmtstr a @ [LF])]\<rparr> \<and>
         PendingStatusEvent S goos w fmtstr a st =
           st\<lparr>written := written st @
                [(w, [CHR 0xE2, CHR 0x8C, CHR 0x9B] @ ''  '' @ S fmtstr a @ [LF])]\<rparr> \<and>
         InfoStatusEvent S goos w fmtstr a st =
           st\<lparr>written := written st @
                [(w, [CHR 0xE2, CHR 0x84, CHR 0xB9, CHR 0xEF, CHR 0xB8, CHR 0x8F] @ ''  '' @
                     S fmtstr a @ [LF])]\<rparr>"
  using assms
  by (simp add: SuccessStatusEvent_def FailureStatusEvent_def WarningStatusEvent_def
        PendingStatusEvent_def InfoStatusEvent_def Fprintf_def Write_def)

theorem human_icon_line_witness:
  "\<not> logAsJSON human_world \<and> ''linux'' \<noteq> windowsOS \<and>
   written (SuccessStatusEvent Sprintf ''linux'' 0 ''hello %s'' [''dapr''] human_world) =
     [(0, [CHR 0xE2, CHR 0x9C, CHR 0x85] @ ''  hello dapr'' @ [LF])] \<and>
   written (InfoStatusEvent Sprintf ''linux'' 0 ''hello %s'' [''dapr''] human_world) =
     [(0, [CHR 0xE2, CHR 0x84, CHR 0xB9, CHR 0xEF, CHR 0xB8, CHR 0x8F] @ ''  hello dapr'' @ [LF])]"
  using human_icon_line [of human_world "''linux''" Sprintf 0 "''hello %s''" "[''dapr'']"]
  by (simp add: human_world_def windowsOS_def)

text \<open>
  Claim C9. On Windows in human mode, every status-event function writes the formatted
  message and a newline, with no icon; \<open>Spinner\<close> writes the message and a newline at
  once and returns the dummy function, which leaves every world as it finds it however
  often it is called.
\<close>

theorem windows_plain_lines:
  assumes "\<not> logAsJSON st" and "goos = windowsOS"
  shows "StatusEvent sev S goos w fmtstr a st =
           st\<lparr>written := written st @ [(w, S fmtstr a @ [LF])]\<rparr> \<and>
         Spinner S goos w fmtstr a st =
           (Dummy, st\<lparr>written := written st @ [(w, S fmtstr a @ [LF])]\<rparr>) \<and>
         complete_all S goos (fst (Spinner S goos w fmtstr a st)) rs st' = (Dummy, st')"
  using assms
  by (simp add: StatusEvent_emit emit_def Spinner_def Fprintf_def Write_def complete_all_Dummy)

theorem windows_plain_lines_witness:
  "\<not> logAsJSON human_world \<and>
   written (StatusEvent warning Sprintf windowsOS 0 ''hello %s'' [''dapr''] human_world) =
     [(0, ''hello dapr'' @ [LF])] \<and>
   written (snd (Spinner Sprintf windowsOS 0 ''hello %s'' [''dapr''] human_world)) =
     [(0, ''hello dapr'' @ [LF])] \<and>
   complete_all Sprintf windowsOS
     (fst (Spinner Sprintf windowsOS 0 ''hello %s'' [''dapr''] human_world)) [Success, Failure]
     json_world = (Dummy, json_world)"
  using windows_plain_lines [where st = human_world and goos = windowsOS and sev = warning
          and S = Sprintf and w = 0 and fmtstr = "''hello %s''" and a = "[''dapr'']"
          and rs = "[Success, Failure]" and st' = json_world]
  by (simp add: human_world_def)

text \<open>
  Claim C7. The flag is off in a process that has made no call; \<open>EnableJSONFormat\<close>
  turns it on and calling it again changes nothing; no call of the package turns it
  off, so after any sequence of calls that contains \<open>EnableJSONFormat\<close>, and whatever
  follows it, the flag is on; and with the flag on, the status events, \<open>Spinner\<close> and the
  completion function all go through \<open>logJSON\<close>.
\<close>

theorem json_mode_sticky:
  "\<not> logAsJSON (state (start t)) \<and>
   IsJSONLogEnabled (EnableJSONFormat st) \<and>
   EnableJSONFormat (EnableJSONFormat st) = EnableJSONFormat st \<and>
   (logAsJSON (state p) \<longrightarrow> logAsJSON (state (run S goos calls p))) \<and>
   logAsJSON (state (run S goos (before @ CallEnableJSONFormat # calls) p)) \<and>
   (logAsJSON st \<longrightarrow>
      StatusEvent sev S goos w fmtstr a st = logJSON w (tag sev) (S fmtstr a) st \<and>
      snd (Spinner S goos w fmtstr a st) = logJSON w ''pending'' (S fmtstr a) st \<and>
      snd (complete S goos (fst (Spinner S goos w fmtstr a st)) r st) =
        logJSON w (if r then ''success'' else ''failure'') (S (S fmtstr a) []) st)"
  by (simp add: logAsJSON_run start_def IsJSONLogEnabled_def EnableJSONFormat_def
        StatusEvent_emit emit_def Spinner_def Let_def SuccessStatusEvent_def
        FailureStatusEvent_def)

theorem json_mode_sticky_witness:
  "logAsJSON (state (run Sprintf ''linux'' [CallEnableJSONFormat] (start noon))) \<and>
   logAsJSON (state (run Sprintf ''linux''
      [CallSpinner 0 ''hello %s'' [''dapr''], ClockReads far_future,
       CallCompletion 0 Success, CallStatusEvent info 0 ''done'' []]
      (run Sprintf ''linux'' [CallEnableJSONFormat] (start noon)))) \<and>
   logAsJSON json_world \<and>
   StatusEvent warning Sprintf ''linux'' 0 ''hello %s'' [''dapr''] json_world =
     logJSON 0 (tag warning) (Sprintf ''hello %s'' [''dapr'']) json_world"
proof -
  have p: "logAsJSON (state (run Sprintf ''linux'' [CallEnableJSONFormat] (start noon)))"
    by (simp add: run_def EnableJSONFormat_def)
  have j: "logAsJSON json_world"
    by (simp add: json_world_def)
  note t = json_mode_sticky [where st = json_world and t = noon and before = "[]" and r = True
          and p = "run Sprintf ''linux'' [CallEnableJSONFormat] (start noon)"
          and S = Sprintf and goos = "''linux''"
          and calls = "[CallSpinner 0 ''hello %s'' [''dapr''], ClockReads far_future,
            CallCompletion 0 Success, CallStatusEvent info 0 ''done'' []]"
          and sev = warning and w = 0 and fmtstr = "''hello %s''" and a = "[''dapr'']"]
  have "logAsJSON (state (run Sprintf ''linux''
      [CallSpinner 0 ''hello %s'' [''dapr''], ClockReads far_future,
       CallCompletion 0 Success, CallStatusEvent info 0 ''done'' []]
      (run Sprintf ''linux'' [CallEnableJSONFormat] (start noon))))"
    by (rule t [THEN conjunct2, THEN conjunct2, THEN conjunct2, THEN conjunct1, THEN mp, OF p])
  moreover have "StatusEvent warning Sprintf ''linux'' 0 ''hello %s'' [''dapr''] json_world =
     logJSON 0 (tag warning) (Sprintf ''hello %s'' [''dapr'']) json_world"
    by (rule t [THEN conjunct2, THEN conjunct2, THEN conjunct2, THEN conjunct2, THEN conjunct2,
          THEN mp, OF j, THEN conjunct1])
  ultimately show ?thesis using p j by (intro conjI)
qed







section \<open>Properties of the version prober\<close>

lemma scan_loop_empty: "scan_loop strs (NewScanner []) = strs"
  by (subst scan_loop.simps) (simp add: Scan_def NewScanner_def)

text \<open>
  Claim C4. \<open>GetRuntimeVersion\<close> and \<open>GetDashboardVersion\<close> return the literal
  \<open>n/a\<close> followed by a newline whenever running the binary with \<open>--version\<close> gives an
  error, whatever the error is, and otherwise return the captured standard output
  unchanged.
\<close>

theorem version_or_fallback:
  assumes "Output h (binaryFilePath h (defaultDaprBinPath h) ''daprd'') [''--version'']
             = (rout, rerr)"
      and "Output h (binaryFilePath h (defaultDaprBinPath h) ''dashboard'') [''--version'']
             = (dout, derr)"
  shows "GetRuntimeVersion h = (if rerr = None then rout else ''n/a'' @ [LF]) \<and>
         GetDashboardVersion h = (if derr = None then dout else ''n/a'' @ [LF])"
  using assms by (simp add: GetRuntimeVersion_def GetDashboardVersion_def)

theorem version_or_fallback_witness:
  "GetRuntimeVersion old_runtime_host = ''1.2.3'' @ [LF] \<and>
   GetDashboardVersion old_runtime_host = ''n/a'' @ [LF]"
  using version_or_fallback [of old_runtime_host "''1.2.3'' @ [LF]" None "[]" "Some NotFound"]
  by (simp add: old_runtime_host_def)

lemma GetBuildInfo_cases:
  assumes "Output h (binaryFilePath h (defaultDaprBinPath h) ''daprd'') [''--build-info'']
             = (out1, err1)"
      and "Output h (binaryFilePath h (defaultDaprBinPath h) ''daprd'') [''--version'']
             = (out2, err2)"
  shows "GetBuildInfo h version =
           Join (if err1 = None then scan_loop (report_head h version) (NewScanner out1)
                 else if err2 = None then scan_loop (report_head h version) (NewScanner out2)
                 else report_head h version @ [TAB # ''N/A'']) [LF]"
  using assms by (simp add: GetBuildInfo_def report_head_def)

text \<open>
  Claim C10. When the runtime invocation that \<open>GetBuildInfo\<close> ends up using succeeds
  with an empty standard output (the \<open>--build-info\<close> run, or the \<open>--version\<close> run after
  a failed \<open>--build-info\<close>), the report is the five head lines and ends with the bare
  line \<open>Runtime:\<close>: no indented line and no \<open>N/A\<close> line follows.
\<close>

theorem empty_output_bare_runtime:
  assumes "Output h (binaryFilePath h (defaultDaprBinPath h) ''daprd'') [''--build-info'']
             = ([], None) \<or>
           (snd (Output h (binaryFilePath h (defaultDaprBinPath h) ''daprd'') [''--build-info''])
              \<noteq> None \<and>
            Output h (binaryFilePath h (defaultDaprBinPath h) ''daprd'') [''--version'']
              = ([], None))"
  shows "GetBuildInfo h version =
           ''CLI:'' @ [LF] @
           TAB # ''Version: '' @ version @ [LF] @
           TAB # ''Git Commit: '' @ gitcommit h @ [LF] @
           TAB # ''Git Version: '' @ gitversion h @ [LF] @
           ''Runtime:''"
proof -
  obtain out1 err1 where o1:
    "Output h (binaryFilePath h (defaultDaprBinPath h) ''daprd'') [''--build-info'']
       = (out1, err1)"
    by (cases "Output h (binaryFilePath h (defaultDaprBinPath h) ''daprd'') [''--build-info'']")
  obtain out2 err2 where o2:
    "Output h (binaryFilePath h (defaultDaprBinPath h) ''daprd'') [''--version'']
       = (out2, err2)"
    by (cases "Output h (binaryFilePath h (defaultDaprBinPath h) ''daprd'') [''--version'']")
  from assms o1 o2 have "(err1 = None \<and> out1 = []) \<or> (err1 \<noteq> None \<and> err2 = None \<and> out2 = [])"
    by auto
  then have "GetBuildInfo h version = Join (report_head h version) [LF]"
    unfolding GetBuildInfo_cases [OF o1 o2] by (auto simp: scan_loop_empty)
  then show ?thesis by (simp add: report_head_def)
qed

theorem empty_output_bare_runtime_witness:
  "GetBuildInfo silent_runtime_host ''1.0.0'' =
     ''CLI:'' @ [LF] @
     TAB # ''Version: 1.0.0'' @ [LF] @
     TAB # ''Git Commit: abc123'' @ [LF] @
     TAB # ''Git Version: v1.0.0-rc'' @ [LF] @
     ''Runtime:''"
  using empty_output_bare_runtime [of silent_runtime_host "''1.0.0''"]
  by (simp add: silent_runtime_host_def)













section \<open>No error reaches the caller\<close>

text \<open>
  Claim C8. Every public operation of the two packages is a total function whose result
  is a world, a completion function with a world, a truth value or a string: none has
  an error in its result. The errors that arise inside are turned into output. When
  serialization fails in JSON mode, which \<open>Time.MarshalJSON\<close> makes happen for a year
  that does not have four digits, a status event and the pending event of \<open>Spinner\<close>
  write the raw message and a newline, with no JSON around it. When the runtime cannot
  be run, \<open>GetRuntimeVersion\<close> returns the line \<open>n/a\<close> and \<open>GetBuildInfo\<close> the report
  with the line \<open>N/A\<close>; likewise \<open>GetDashboardVersion\<close>.
\<close>

theorem errors_absorbed:
  "(logAsJSON st \<and> (year (now st) < 0 \<or> 10000 \<le> year (now st)) \<longrightarrow>
      StatusEvent sev S goos w fmtstr a st =
        st\<lparr>written := written st @ [(w, S fmtstr a @ [LF])]\<rparr> \<and>
      snd (Spinner S goos w fmtstr a st) =
        st\<lparr>written := written st @ [(w, S fmtstr a @ [LF])]\<rparr>) \<and>
   (snd (Output h (binaryFilePath h (defaultDaprBinPath h) ''daprd'') [''--build-info''])
      \<noteq> None \<and>
    snd (Output h (binaryFilePath h (defaultDaprBinPath h) ''daprd'') [''--version''])
      \<noteq> None \<longrightarrow>
      GetRuntimeVersion h = ''n/a'' @ [LF] \<and>
      GetBuildInfo h version = Join (report_head h version @ [TAB # ''N/A'']) [LF]) \<and>
   (snd (Output h (binaryFilePath h (defaultDaprBinPath h) ''dashboard'') [''--version''])
      \<noteq> None \<longrightarrow>
      GetDashboardVersion h = ''n/a'' @ [LF])"
proof -
  obtain out1 err1 where o1:
    "Output h (binaryFilePath h (defaultDaprBinPath h) ''daprd'') [''--build-info'']
       = (out1, err1)"
    by (cases "Output h (binaryFilePath h (defaultDaprBinPath h) ''daprd'') [''--build-info'']")
  obtain out2 err2 where o2:
    "Output h (binaryFilePath h (defaultDaprBinPath h) ''daprd'') [''--version'']
       = (out2, err2)"
    by (cases "Output h (binaryFilePath h (defaultDaprBinPath h) ''daprd'') [''--version'']")
  have "logAsJSON st \<and> (year (now st) < 0 \<or> 10000 \<le> year (now st)) \<longrightarrow>
      StatusEvent sev S goos w fmtstr a st =
        st\<lparr>written := written st @ [(w, S fmtstr a @ [LF])]\<rparr> \<and>
      snd (Spinner S goos w fmtstr a st) =
        st\<lparr>written := written st @ [(w, S fmtstr a @ [LF])]\<rparr>"
    by (simp add: StatusEvent_emit emit_def Spinner_def Let_def logJSON_cases Marshal_None
          Write_def)
  moreover have "err1 \<noteq> None \<and> err2 \<noteq> None \<longrightarrow>
      GetRuntimeVersion h = ''n/a'' @ [LF] \<and>
      GetBuildInfo h version = Join (report_head h version @ [TAB # ''N/A'']) [LF]"
    by (auto simp: GetBuildInfo_cases [OF o1 o2] GetRuntimeVersion_def o2)
  moreover have
    "snd (Output h (binaryFilePath h (defaultDaprBinPath h) ''dashboard'') [''--version''])
       \<noteq> None \<longrightarrow> GetDashboardVersion h = ''n/a'' @ [LF]"
    by (auto simp: GetDashboardVersion_def split_beta)
  ultimately show ?thesis by (simp add: o1 o2)
qed

theorem errors_absorbed_witness:
  "logAsJSON late_world \<and> 10000 \<le> year (now late_world) \<and>
   written (StatusEvent failure Sprintf ''linux'' 0 ''hello %s'' [''dapr''] late_world) =
     [(0, ''hello dapr'' @ [LF])] \<and>
   GetRuntimeVersion bare_host = ''n/a'' @ [LF] \<and>
   GetDashboardVersion bare_host = ''n/a'' @ [LF] \<and>
   GetBuildInfo bare_host ''1.0.0'' =
     ''CLI:'' @ [LF] @
     TAB # ''Version: 1.0.0'' @ [LF] @
     TAB # ''Git Commit: abc123'' @ [LF] @
     TAB # ''Git Version: v1.0.0-rc'' @ [LF] @
     ''Runtime:'' @ [LF] @
     TAB # ''N/A''"
  using errors_absorbed [of late_world failure Sprintf "''linux''" 0 "''hello %s''"
          "[''dapr'']" bare_host "''1.0.0''"]
  by (simp add: late_world_def far_future_def bare_host_def report_head_def)

end
